theory Spec2Isabelle
  imports Main
begin

section \<open>The task table\<close>

text \<open>
  One row of the table of tasks. The primary key is called \<open>id\<close> in the program;
  it is \<open>task_id\<close> here, since \<open>id\<close> is the identity function of HOL.
  The description column is nullable, the other columns are not.
\<close>

record task =
  task_id :: int
  title :: string
  description :: "string option"
  completed :: bool

text \<open>
  Modelled from the spec: the files models.py and database.py (the class \<open>Task\<close> and
  the handle \<open>db\<close>) are not among the sources, and the key of a new row is chosen by
  the database engine. The spec's store "assigns a new unique id" on create and never
  reuses an id after deletion: the table keeps the highest key issued so far and a new
  row takes the next one. Rows are kept in insertion order.
\<close>

record store =
  rows :: "task list"
  last_id :: int

text \<open>
  Modelled from the spec: \<open>Task(title=..., description=...)\<close> builds an object whose
  \<open>completed\<close> column takes its default, false. The object has no key until it is
  inserted, so the constructor is a function of the key it will be given.
\<close>

definition Task :: "string \<Rightarrow> string \<Rightarrow> int \<Rightarrow> task" where
  "Task t d i = \<lparr>task_id = i, title = t, description = Some d, completed = False\<rparr>"

text \<open>
  app.py sets the engine of the database to SQLite, whose integer keys are signed and
  64 bits wide.
\<close>

definition sqlite_integer :: "int \<Rightarrow> bool" where
  "sqlite_integer i = (- (2 ^ 63) \<le> i \<and> i < 2 ^ 63)"

text \<open>
  What the views ask of the store: all rows, the row of a key, a new row, the rows of a
  key rewritten from a loaded object, the rows of a key deleted. A number outside the
  range of the keys is the key of no row.
\<close>

definition query_all :: "store \<Rightarrow> task list" where
  "query_all s = rows s"

definition query_get :: "store \<Rightarrow> int \<Rightarrow> task option" where
  "query_get s i = (if sqlite_integer i then find (\<lambda>r. task_id r = i) (rows s) else None)"

definition insert_row :: "(int \<Rightarrow> task) \<Rightarrow> store \<Rightarrow> store" where
  "insert_row mk s =
     \<lparr>rows = rows s @ [mk (last_id s + 1)], last_id = last_id s + 1\<rparr>"

definition update_row :: "task \<Rightarrow> store \<Rightarrow> store" where
  "update_row t s = s\<lparr>rows := map (\<lambda>r. if task_id r = task_id t then t else r) (rows s)\<rparr>"

definition delete_row :: "task \<Rightarrow> store \<Rightarrow> store" where
  "delete_row t s = s\<lparr>rows := filter (\<lambda>r. task_id r \<noteq> task_id t) (rows s)\<rparr>"

section \<open>Requests, responses and errors\<close>

datatype http_method = GET | POST

text \<open>
  A request carries its method (\<open>request.method\<close>, here \<open>req_method\<close>), its
  path as the list of segments between the slashes
  (\<open>/task/7/edit\<close> is \<open>[''task'', ''7'', ''edit'']\<close> and \<open>/\<close> is \<open>[]\<close>) and the
  submitted form fields in the order they were sent.
\<close>

record request =
  req_method :: http_method
  path :: "string list"
  form :: "(string \<times> string) list"

text \<open>The five view functions of the blueprint \<open>main\<close>, with the arguments of the route.\<close>

datatype endpoint =
  Main_index
  | Main_new_task
  | Main_edit_task int
  | Main_delete_task int
  | Main_toogle_task int

text \<open>
  A view returns a rendered template, named by its file with the values handed to it,
  or a redirect to the address of an endpoint (\<open>redirect(url_for(...))\<close>).
\<close>

datatype response =
  Index_html "task list"
  | Create_task_html
  | Edit_task_html task
  | Redirect endpoint

text \<open>
  The exceptions a request can end in: \<open>get_or_404\<close> and an unknown address raise
  \<open>NotFound\<close>, reading a form field that was not sent raises \<open>BadRequestKeyError\<close>
  for that field, a known address asked with a method its route does not list is
  \<open>MethodNotAllowed\<close>, and a lookup by a number the engine cannot take as a key
  raises \<open>OverflowError\<close>. The views catch none of them; the last is no HTTP
  exception and is answered as a server error.
\<close>

datatype error = NotFound | BadRequestKeyError string | MethodNotAllowed | OverflowError

fun http_status :: "error + response \<Rightarrow> nat" where
  "http_status (Inl NotFound) = 404"
| "http_status (Inl (BadRequestKeyError k)) = 400"
| "http_status (Inl MethodNotAllowed) = 405"
| "http_status (Inl OverflowError) = 500"
| "http_status (Inr (Redirect ep)) = 302"
| "http_status (Inr r) = 200"

section \<open>The state of the application\<close>

text \<open>
  Between requests the application is the committed table and the flashed messages
  waiting to be shown.
\<close>

record app =
  db :: store
  flashes :: "string list"

text \<open>
  While a view runs it works on the session, a private copy of the table that
  \<open>db.session.commit()\<close> writes back. Showing the waiting messages is the work of
  the templates, which are not modelled.
\<close>

record ctx =
  committed :: store
  session :: store
  flashed :: "string list"

definition begin_request :: "app \<Rightarrow> ctx" where
  "begin_request a = \<lparr>committed = db a, session = db a, flashed = flashes a\<rparr>"

definition end_request :: "ctx \<Rightarrow> app" where
  "end_request c = \<lparr>db = committed c, flashes = flashed c\<rparr>"

definition db_session_add :: "(int \<Rightarrow> task) \<Rightarrow> ctx \<Rightarrow> ctx" where
  "db_session_add mk c = c\<lparr>session := insert_row mk (session c)\<rparr>"

definition db_session_delete :: "task \<Rightarrow> ctx \<Rightarrow> ctx" where
  "db_session_delete t c = c\<lparr>session := delete_row t (session c)\<rparr>"

text \<open>Assigning to the attributes of a loaded object changes its row in the session.\<close>

definition db_session_set :: "task \<Rightarrow> ctx \<Rightarrow> ctx" where
  "db_session_set t c = c\<lparr>session := update_row t (session c)\<rparr>"

definition db_session_commit :: "ctx \<Rightarrow> ctx" where
  "db_session_commit c = c\<lparr>committed := session c\<rparr>"

definition flash :: "string \<Rightarrow> ctx \<Rightarrow> ctx" where
  "flash m c = c\<lparr>flashed := flashed c @ [m]\<rparr>"

text \<open>
  \<open>Task.query.get_or_404(task_id)\<close>: the number is bound as the parameter of a query
  for the row of that key. The route hands over any number of digits, and binding one
  outside the range of the keys raises before the table is read.
\<close>

definition get_or_404 :: "int \<Rightarrow> ctx \<Rightarrow> error + task" where
  "get_or_404 i c =
     (if sqlite_integer i then
        (case query_get (session c) i of None \<Rightarrow> Inl NotFound | Some t \<Rightarrow> Inr t)
      else Inl OverflowError)"

text \<open>\<open>request.form[k]\<close>: the first value sent for \<open>k\<close>, an error when there is none.\<close>

definition form_getitem :: "request \<Rightarrow> string \<Rightarrow> error + string" where
  "form_getitem rq k =
     (case map_of (form rq) k of None \<Rightarrow> Inl (BadRequestKeyError k) | Some v \<Rightarrow> Inr v)"

text \<open>\<open>k in request.form\<close>\<close>

definition form_contains :: "request \<Rightarrow> string \<Rightarrow> bool" where
  "form_contains rq k = (k \<in> set (map fst (form rq)))"

section \<open>The view functions of routes.py\<close>

text \<open>
  A view takes the request and the arguments of its route and runs on the context, which
  it hands back changed, with the response it returns or the exception it raises. An
  exception leaves the context as the statements before it made it.
\<close>

type_synonym view = "ctx \<Rightarrow> (error + response) \<times> ctx"

definition index :: "request \<Rightarrow> view" where
  "index rq c = (let tasks = query_all (session c) in (Inr (Index_html tasks), c))"

definition new_task :: "request \<Rightarrow> view" where
  "new_task rq c =
     (if req_method rq = POST then
        (case form_getitem rq ''title'' of
           Inl e \<Rightarrow> (Inl e, c)
         | Inr t \<Rightarrow>
             (case form_getitem rq ''description'' of
                Inl e \<Rightarrow> (Inl e, c)
              | Inr d \<Rightarrow>
                  if t = [] then
                    (Inr (Redirect Main_new_task), flash ''Title is required'' c)
                  else
                    (Inr (Redirect Main_index),
                     db_session_commit (db_session_add (Task t d) c))))
      else (Inr Create_task_html, c))"

definition edit_task :: "request \<Rightarrow> int \<Rightarrow> view" where
  "edit_task rq i c =
     (case get_or_404 i c of
        Inl e \<Rightarrow> (Inl e, c)
      | Inr task \<Rightarrow>
          if req_method rq = POST then
            (case form_getitem rq ''title'' of
               Inl e \<Rightarrow> (Inl e, c)
             | Inr t \<Rightarrow>
                 (let task1 = task\<lparr>title := t\<rparr>;
                      c1 = db_session_set task1 c
                  in case form_getitem rq ''description'' of
                       Inl e \<Rightarrow> (Inl e, c1)
                     | Inr d \<Rightarrow>
                         (let task2 = task1\<lparr>description := Some d\<rparr>;
                              c2 = db_session_set task2 c1;
                              task3 = task2\<lparr>completed := form_contains rq ''completed''\<rparr>;
                              c3 = db_session_set task3 c2
                          in (Inr (Redirect Main_index), db_session_commit c3))))
          else (Inr (Edit_task_html task), c))"

definition delete_task :: "int \<Rightarrow> view" where
  "delete_task i c =
     (case get_or_404 i c of
        Inl e \<Rightarrow> (Inl e, c)
      | Inr task \<Rightarrow>
          (Inr (Redirect Main_index), db_session_commit (db_session_delete task c)))"

definition toogle_task :: "int \<Rightarrow> view" where
  "toogle_task i c =
     (case get_or_404 i c of
        Inl e \<Rightarrow> (Inl e, c)
      | Inr task \<Rightarrow>
          (let task1 = task\<lparr>completed := \<not> completed task\<rparr>
           in (Inr (Redirect Main_index), db_session_commit (db_session_set task1 c))))"

section \<open>Routing\<close>

text \<open>
  The converter \<open>int\<close> of a route accepts a segment that is one or more decimal digits
  and reads it in base ten, with no upper bound. Segments are read here as ASCII: the
  converter also takes the decimal digits of other scripts, which give the same numbers
  by other spellings and are left out.
\<close>

definition is_digit :: "char \<Rightarrow> bool" where
  "is_digit ch = (ch \<in> set ''0123456789'')"

definition digit_value :: "char \<Rightarrow> int" where
  "digit_value ch = int (of_char ch) - 48"

definition int_converter :: "string \<Rightarrow> int option" where
  "int_converter s =
     (if s \<noteq> [] \<and> list_all is_digit s
      then Some (foldl (\<lambda>n ch. 10 * n + digit_value ch) 0 s) else None)"

text \<open>
  The rules the decorators of routes.py declare; app.py registers the blueprint with no
  prefix. A rule gives the endpoint and the methods it answers. The rule for static
  files and the methods HEAD and OPTIONS, which the framework adds by itself and which
  write nothing, are left out.
\<close>

definition url_map :: "string list \<Rightarrow> (endpoint \<times> http_method list) option" where
  "url_map p =
     (case p of
        [] \<Rightarrow> Some (Main_index, [GET])
      | [a, b] \<Rightarrow>
          if a = ''task'' \<and> b = ''new'' then Some (Main_new_task, [GET, POST]) else None
      | [a, n, b] \<Rightarrow>
          if a = ''task'' then
            (case int_converter n of
               None \<Rightarrow> None
             | Some i \<Rightarrow>
                 if b = ''edit'' then Some (Main_edit_task i, [GET, POST])
                 else if b = ''delete'' then Some (Main_delete_task i, [POST])
                 else if b = ''toogle'' then Some (Main_toogle_task i, [POST])
                 else None)
          else None
      | _ \<Rightarrow> None)"

definition dispatch_request :: "endpoint \<Rightarrow> request \<Rightarrow> view" where
  "dispatch_request ep rq =
     (case ep of
        Main_index \<Rightarrow> index rq
      | Main_new_task \<Rightarrow> new_task rq
      | Main_edit_task i \<Rightarrow> edit_task rq i
      | Main_delete_task i \<Rightarrow> delete_task i
      | Main_toogle_task i \<Rightarrow> toogle_task i)"

text \<open>
  One request: the view runs on a fresh session, and when it has returned or raised the
  session is dropped, so only what was committed reaches the table.
\<close>

definition run_view :: "app \<Rightarrow> view \<Rightarrow> (error + response) \<times> app" where
  "run_view a v = (case v (begin_request a) of (res, c) \<Rightarrow> (res, end_request c))"

definition serve :: "app \<Rightarrow> request \<Rightarrow> (error + response) \<times> app" where
  "serve a rq =
     (case url_map (path rq) of
        None \<Rightarrow> (Inl NotFound, a)
      | Some (ep, ms) \<Rightarrow>
          if req_method rq \<in> set ms then run_view a (dispatch_request ep rq)
          else (Inl MethodNotAllowed, a))"

text \<open>The application after a list of requests, served one after the other.\<close>

fun serve_all :: "app \<Rightarrow> request list \<Rightarrow> app" where
  "serve_all a [] = a"
| "serve_all a (rq # rqs) = serve_all (snd (serve a rq)) rqs"

text \<open>\<open>create_app\<close> on a new database file: \<open>db.create_all()\<close> makes the empty table.\<close>

definition create_app :: app where
  "create_app = \<lparr>db = \<lparr>rows = [], last_id = 0\<rparr>, flashes = []\<rparr>"

section \<open>The keys of the table over time\<close>

definition task_ids :: "store \<Rightarrow> int list" where
  "task_ids s = map task_id (rows s)"

text \<open>
  The keys a request hands out are those in the table after it that were not there
  before it; \<open>assigned_ids\<close> collects them over a list of requests, in order.
\<close>

definition new_ids :: "app \<Rightarrow> app \<Rightarrow> int list" where
  "new_ids a a' = filter (\<lambda>i. i \<notin> set (task_ids (db a))) (task_ids (db a'))"

fun assigned_ids :: "app \<Rightarrow> request list \<Rightarrow> int list" where
  "assigned_ids a [] = []"
| "assigned_ids a (rq # rqs) =
     new_ids a (snd (serve a rq)) @ assigned_ids (snd (serve a rq)) rqs"

text \<open>No key in the table is above the highest key issued.\<close>

definition ids_bounded :: "store \<Rightarrow> bool" where
  "ids_bounded s = list_all (\<lambda>i. i \<le> last_id s) (task_ids s)"

text \<open>
  What one request can do to the committed table: nothing, insert one row built by the
  constructor, rewrite the rows of one key, or delete them.
\<close>

inductive store_step :: "store \<Rightarrow> store \<Rightarrow> bool" where
  same: "store_step s s"
| ins: "store_step s (insert_row (Task t d) s)"
| upd: "store_step s (update_row u s)"
| del: "store_step s (delete_row u s)"

section \<open>Properties\<close>

lemmas ctx_defs = begin_request_def end_request_def db_session_add_def db_session_delete_def
  db_session_set_def db_session_commit_def flash_def get_or_404_def

lemmas route_defs = url_map_def int_converter_def is_digit_def digit_value_def

lemmas eval_defs = sqlite_integer_def serve_def run_view_def dispatch_request_def index_def new_task_def
  edit_task_def delete_task_def toogle_task_def form_getitem_def form_contains_def ctx_defs
  route_defs query_all_def query_get_def insert_row_def update_row_def delete_row_def Task_def
  create_app_def

lemma query_get_id: "query_get s i = Some t \<Longrightarrow> task_id t = i"
  by (auto simp: query_get_def find_Some_iff split: if_splits)

lemma query_get_range: "query_get s i = Some t \<Longrightarrow> sqlite_integer i"
  by (simp add: query_get_def split: if_splits)

lemma find_map_other:
  "j \<noteq> task_id u \<Longrightarrow>
   find (\<lambda>r. task_id r = j) (map (\<lambda>r. if task_id r = task_id u then u else r) xs)
     = find (\<lambda>r. task_id r = j) xs"
  by (induction xs) auto

lemma find_map_same:
  "find (\<lambda>r. task_id r = task_id u) xs = Some t0 \<Longrightarrow>
   find (\<lambda>r. task_id r = task_id u) (map (\<lambda>r. if task_id r = task_id u then u else r) xs)
     = Some u"
  by (induction xs) (auto split: if_splits)

lemma query_get_update_same:
  "query_get s i = Some t0 \<Longrightarrow> task_id u = i \<Longrightarrow> query_get (update_row u s) i = Some u"
  by (auto simp: query_get_def update_row_def find_map_same split: if_splits)

lemma query_get_update_other:
  "j \<noteq> task_id u \<Longrightarrow> query_get (update_row u s) j = query_get s j"
  by (simp add: query_get_def update_row_def find_map_other)

lemma query_get_delete_same: "query_get (delete_row u s) (task_id u) = None"
  by (simp add: query_get_def delete_row_def find_None_iff)

lemma update_row_twice:
  "task_id u = task_id v \<Longrightarrow> update_row v (update_row u s) = update_row v s"
  by (simp add: update_row_def)

lemma run_toogle:
  assumes "query_get (db a) i = Some t"
  shows "run_view a (toogle_task i) =
    (Inr (Redirect Main_index), a\<lparr>db := update_row (t\<lparr>completed := \<not> completed t\<rparr>) (db a)\<rparr>)"
  using assms query_get_range [OF assms]
  by (simp add: run_view_def toogle_task_def ctx_defs Let_def)

lemma run_delete:
  assumes "query_get (db a) i = Some t"
  shows "run_view a (delete_task i) = (Inr (Redirect Main_index), a\<lparr>db := delete_row t (db a)\<rparr>)"
  using assms query_get_range [OF assms]
  by (simp add: run_view_def delete_task_def ctx_defs Let_def)

lemma run_edit_post:
  assumes "query_get (db a) i = Some t0" "req_method rq = POST"
    "map_of (form rq) ''title'' = Some t" "map_of (form rq) ''description'' = Some d"
  shows "run_view a (edit_task rq i) = (Inr (Redirect Main_index),
     a\<lparr>db := update_row (t0\<lparr>title := t, description := Some d,
            completed := form_contains rq ''completed''\<rparr>) (db a)\<rparr>)"
  using assms query_get_range [OF assms(1)]
  by (simp add: run_view_def edit_task_def ctx_defs form_getitem_def update_row_twice Let_def)

text \<open>A lookup that finds nothing raises, and which exception depends on the number alone.\<close>

lemma get_or_404_miss:
  "query_get (session c) i = None \<Longrightarrow>
   get_or_404 i c = Inl (if sqlite_integer i then NotFound else OverflowError)"
  by (simp add: get_or_404_def)

lemma miss_edit:
  "query_get (db a) i = None \<Longrightarrow>
   run_view a (edit_task rq i) = (Inl (if sqlite_integer i then NotFound else OverflowError), a)"
  by (simp add: run_view_def edit_task_def ctx_defs Let_def)

lemma miss_delete:
  "query_get (db a) i = None \<Longrightarrow>
   run_view a (delete_task i) = (Inl (if sqlite_integer i then NotFound else OverflowError), a)"
  by (simp add: run_view_def delete_task_def ctx_defs)

lemma miss_toogle:
  "query_get (db a) i = None \<Longrightarrow>
   run_view a (toogle_task i) = (Inl (if sqlite_integer i then NotFound else OverflowError), a)"
  by (simp add: run_view_def toogle_task_def ctx_defs)

lemma not_found_edit:
  "query_get (db a) i = None \<Longrightarrow> sqlite_integer i \<Longrightarrow>
   run_view a (edit_task rq i) = (Inl NotFound, a)"
  by (simp add: miss_edit)

lemma not_found_delete:
  "query_get (db a) i = None \<Longrightarrow> sqlite_integer i \<Longrightarrow>
   run_view a (delete_task i) = (Inl NotFound, a)"
  by (simp add: miss_delete)

lemma not_found_toogle:
  "query_get (db a) i = None \<Longrightarrow> sqlite_integer i \<Longrightarrow>
   run_view a (toogle_task i) = (Inl NotFound, a)"
  by (simp add: miss_toogle)

lemma serve_index: "path rq = [] \<Longrightarrow> req_method rq = GET \<Longrightarrow> serve a rq = run_view a (index rq)"
  by (simp add: serve_def url_map_def dispatch_request_def)

lemma serve_new_task:
  "path rq = [''task'', ''new''] \<Longrightarrow> serve a rq = run_view a (new_task rq)"
  by (cases "req_method rq") (simp_all add: serve_def url_map_def dispatch_request_def)

lemma serve_edit_task:
  "path rq = [''task'', n, ''edit''] \<Longrightarrow> int_converter n = Some i \<Longrightarrow>
   serve a rq = run_view a (edit_task rq i)"
  by (cases "req_method rq") (simp_all add: serve_def url_map_def dispatch_request_def)

lemma serve_delete_task:
  "path rq = [''task'', n, ''delete''] \<Longrightarrow> int_converter n = Some i \<Longrightarrow>
   req_method rq = POST \<Longrightarrow> serve a rq = run_view a (delete_task i)"
  by (simp add: serve_def url_map_def dispatch_request_def)

lemma serve_toogle_task:
  "path rq = [''task'', n, ''toogle''] \<Longrightarrow> int_converter n = Some i \<Longrightarrow>
   req_method rq = POST \<Longrightarrow> serve a rq = run_view a (toogle_task i)"
  by (simp add: serve_def url_map_def dispatch_request_def)

lemma run_index: "run_view a (index rq) = (Inr (Index_html (rows (db a))), a)"
  by (simp add: run_view_def index_def query_all_def ctx_defs)

lemma run_new_task_post:
  assumes "req_method rq = POST"
    "map_of (form rq) ''title'' = Some t" "map_of (form rq) ''description'' = Some d"
  shows "run_view a (new_task rq) =
     (if t = [] then (Inr (Redirect Main_new_task), a\<lparr>flashes := flashes a @ [''Title is required'']\<rparr>)
      else (Inr (Redirect Main_index), a\<lparr>db := insert_row (Task t d) (db a)\<rparr>))"
  using assms by (simp add: run_view_def new_task_def form_getitem_def ctx_defs)

lemma run_new_task_get: "req_method rq = GET \<Longrightarrow> run_view a (new_task rq) = (Inr Create_task_html, a)"
  by (simp add: run_view_def new_task_def ctx_defs)

lemma run_new_task_no_title:
  assumes "req_method rq = POST" "map_of (form rq) ''title'' = None"
  shows "run_view a (new_task rq) = (Inl (BadRequestKeyError ''title''), a)"
  using assms by (simp add: run_view_def new_task_def form_getitem_def ctx_defs)

lemma run_new_task_no_description:
  assumes "req_method rq = POST" "map_of (form rq) ''title'' = Some t"
    "map_of (form rq) ''description'' = None"
  shows "run_view a (new_task rq) = (Inl (BadRequestKeyError ''description''), a)"
  using assms by (simp add: run_view_def new_task_def form_getitem_def ctx_defs)

subsection \<open>Creating and listing\<close>

text \<open>
  C1. On a table with no rows, a POST to \<open>/task/new\<close> with the title \<open>Buy milk\<close> and
  the description \<open>2%\<close> redirects to the list, and a GET of \<open>/\<close> after it renders
  exactly one task, with that title, that description and \<open>completed\<close> false.
\<close>

theorem create_then_list:
  assumes "rows (db a) = []"
    and "req_method rq = POST" and "path rq = [''task'', ''new'']"
    and "map_of (form rq) ''title'' = Some ''Buy milk''"
    and "map_of (form rq) ''description'' = Some ''2%''"
    and "req_method ls = GET" and "path ls = []"
  shows "fst (serve a rq) = Inr (Redirect Main_index) \<and>
         fst (serve (snd (serve a rq)) ls) =
           Inr (Index_html [\<lparr>task_id = last_id (db a) + 1, title = ''Buy milk'',
                              description = Some ''2%'', completed = False\<rparr>])"
  using assms
  by (simp add: serve_new_task serve_index run_index
      run_new_task_post [where t = "''Buy milk''" and d = "''2%''"] insert_row_def Task_def)

theorem create_then_list_witness:
  "rows (db create_app) = [] \<and>
   fst (serve create_app
          \<lparr>req_method = POST, path = [''task'', ''new''],
             form = [(''title'', ''Buy milk''), (''description'', ''2%'')]\<rparr>)
     = Inr (Redirect Main_index) \<and>
   fst (serve (snd (serve create_app
          \<lparr>req_method = POST, path = [''task'', ''new''],
             form = [(''title'', ''Buy milk''), (''description'', ''2%'')]\<rparr>))
          \<lparr>req_method = GET, path = [], form = []\<rparr>)
     = Inr (Index_html [\<lparr>task_id = 1, title = ''Buy milk'',
                          description = Some ''2%'', completed = False\<rparr>])"
  using create_then_list [of create_app
      "\<lparr>req_method = POST, path = [''task'', ''new''],
         form = [(''title'', ''Buy milk''), (''description'', ''2%'')]\<rparr>"
      "\<lparr>req_method = GET, path = [], form = []\<rparr>"]
  by (simp add: create_app_def)

subsection \<open>An empty title on create\<close>

text \<open>
  Against C2 as it was stated. The view answers an empty title with \<open>redirect(url_for('main.new_task'))\<close>: the
  response to the POST is a redirect, status 302, not the form with status 200. When the
  form has no description field the view raises before it reaches the check of the
  title, and flashes nothing.
\<close>

theorem empty_title_counterexample:
  "fst (serve create_app
          \<lparr>req_method = POST, path = [''task'', ''new''],
             form = [(''title'', []), (''description'', [])]\<rparr>)
     = Inr (Redirect Main_new_task) \<and>
   http_status (fst (serve create_app
          \<lparr>req_method = POST, path = [''task'', ''new''],
             form = [(''title'', []), (''description'', [])]\<rparr>)) = 302 \<and>
   serve create_app \<lparr>req_method = POST, path = [''task'', ''new''], form = [(''title'', [])]\<rparr>
     = (Inl (BadRequestKeyError ''description''), create_app)"
  by (simp add: serve_new_task run_new_task_post [where t = "[]" and d = "[]"]
      run_new_task_no_description [where t = "[]"])

text \<open>
  C2, as amended. For every POST to \<open>/task/new\<close> whose title field is the empty
  string the table is unchanged. When a description field was sent, the message
  \<open>Title is required\<close> is flashed and the response is a redirect to \<open>/task/new\<close>;
  when none was sent the request fails with \<open>BadRequestKeyError\<close> and the
  application is as before. The GET of \<open>/task/new\<close> that follows the redirect renders
  the creation form with status 200.
\<close>

theorem empty_title_redirects:
  assumes "req_method rq = POST" and "path rq = [''task'', ''new'']"
    and "map_of (form rq) ''title'' = Some []"
  shows "db (snd (serve a rq)) = db a \<and>
         (if map_of (form rq) ''description'' = None
          then serve a rq = (Inl (BadRequestKeyError ''description''), a)
          else serve a rq = (Inr (Redirect Main_new_task),
                             a\<lparr>flashes := flashes a @ [''Title is required'']\<rparr>)) \<and>
         url_map [''task'', ''new''] = Some (Main_new_task, [GET, POST]) \<and>
         fst (serve (snd (serve a rq)) \<lparr>req_method = GET, path = [''task'', ''new''], form = []\<rparr>)
           = Inr Create_task_html \<and>
         http_status (Inr Create_task_html) = 200"
proof (cases "map_of (form rq) ''description''")
  case None
  with assms show ?thesis
    by (simp add: serve_new_task run_new_task_no_description [where t = "[]"]
        run_new_task_get url_map_def)
next
  case (Some d)
  with assms show ?thesis
    by (simp add: serve_new_task run_new_task_post [where t = "[]" and d = d]
        run_new_task_get url_map_def)
qed

theorem empty_title_redirects_witness:
  "serve create_app
     \<lparr>req_method = POST, path = [''task'', ''new''],
        form = [(''title'', []), (''description'', ''2%'')]\<rparr>
     = (Inr (Redirect Main_new_task),
        \<lparr>db = \<lparr>rows = [], last_id = 0\<rparr>, flashes = [''Title is required'']\<rparr>)"
  using empty_title_redirects [of
      "\<lparr>req_method = POST, path = [''task'', ''new''],
         form = [(''title'', []), (''description'', ''2%'')]\<rparr>" create_app]
  by (simp add: create_app_def)

subsection \<open>Editing\<close>

text \<open>
  C3. For a key in the table, a POST to \<open>/task/<id>/edit\<close> that submits a title and a
  description redirects to the list and leaves, under that key, the submitted title and
  description, with \<open>completed\<close> true exactly when the form has a field \<open>completed\<close>.
  The title is any string, the empty one too.
\<close>

theorem edit_overwrites:
  assumes "query_get (db a) i = Some t0"
    and "req_method rq = POST" and "path rq = [''task'', n, ''edit'']"
    and "int_converter n = Some i"
    and "map_of (form rq) ''title'' = Some t"
    and "map_of (form rq) ''description'' = Some d"
  shows "fst (serve a rq) = Inr (Redirect Main_index) \<and>
         query_get (db (snd (serve a rq))) i =
           Some \<lparr>task_id = i, title = t, description = Some d,
                  completed = (''completed'' \<in> fst ` set (form rq))\<rparr> \<and>
         url_map [] = Some (Main_index, [GET])"
proof -
  let ?u = "t0\<lparr>title := t, description := Some d, completed := form_contains rq ''completed''\<rparr>"
  have u: "?u = \<lparr>task_id = i, title = t, description = Some d,
                  completed = (''completed'' \<in> fst ` set (form rq))\<rparr>"
    using query_get_id [OF assms(1)] by (simp add: form_contains_def)
  have "serve a rq = (Inr (Redirect Main_index), a\<lparr>db := update_row ?u (db a)\<rparr>)"
    using assms by (simp add: serve_edit_task run_edit_post)
  moreover have "query_get (update_row ?u (db a)) i = Some ?u"
    using assms(1) query_get_id [OF assms(1)] by (simp add: query_get_update_same)
  ultimately show ?thesis
    using u by (simp add: url_map_def)
qed

theorem edit_overwrites_witness:
  "query_get (db \<lparr>db = \<lparr>rows = [\<lparr>task_id = 1, title = ''Old'', description = None,
                                   completed = True\<rparr>], last_id = 1\<rparr>, flashes = []\<rparr>) 1
     = Some \<lparr>task_id = 1, title = ''Old'', description = None, completed = True\<rparr> \<and>
   int_converter ''1'' = Some 1 \<and>
   query_get (db (snd (serve
       \<lparr>db = \<lparr>rows = [\<lparr>task_id = 1, title = ''Old'', description = None,
                         completed = True\<rparr>], last_id = 1\<rparr>, flashes = []\<rparr>
       \<lparr>req_method = POST, path = [''task'', ''1'', ''edit''],
          form = [(''title'', []), (''description'', ''d'')]\<rparr>))) 1
     = Some \<lparr>task_id = 1, title = [], description = Some ''d'', completed = False\<rparr>"
  using edit_overwrites [of
      "\<lparr>db = \<lparr>rows = [\<lparr>task_id = 1, title = ''Old'', description = None,
                         completed = True\<rparr>], last_id = 1\<rparr>, flashes = []\<rparr>"
      1 "\<lparr>task_id = 1, title = ''Old'', description = None, completed = True\<rparr>"
      "\<lparr>req_method = POST, path = [''task'', ''1'', ''edit''],
         form = [(''title'', []), (''description'', ''d'')]\<rparr>"
      "''1''" "[]" "''d''"]
  by (simp add: query_get_def sqlite_integer_def route_defs)

subsection \<open>The address of the toggle\<close>

text \<open>
  C4. The rule of the view is \<open>/task/<int:task_id>/toogle\<close>. A POST to
  \<open>/task/1/toggle\<close> matches no rule: with task 1 in the table it is answered 404 and
  the task is not touched, where the same POST to \<open>/task/1/toogle\<close> flips it and
  redirects to the list.
\<close>

theorem toggle_path_not_routed:
  "serve \<lparr>db = \<lparr>rows = [\<lparr>task_id = 1, title = ''a'', description = Some ''b'',
                            completed = False\<rparr>], last_id = 1\<rparr>, flashes = []\<rparr>
         \<lparr>req_method = POST, path = [''task'', ''1'', ''toggle''], form = []\<rparr>
     = (Inl NotFound,
        \<lparr>db = \<lparr>rows = [\<lparr>task_id = 1, title = ''a'', description = Some ''b'',
                           completed = False\<rparr>], last_id = 1\<rparr>, flashes = []\<rparr>) \<and>
   serve \<lparr>db = \<lparr>rows = [\<lparr>task_id = 1, title = ''a'', description = Some ''b'',
                            completed = False\<rparr>], last_id = 1\<rparr>, flashes = []\<rparr>
         \<lparr>req_method = POST, path = [''task'', ''1'', ''toogle''], form = []\<rparr>
     = (Inr (Redirect Main_index),
        \<lparr>db = \<lparr>rows = [\<lparr>task_id = 1, title = ''a'', description = Some ''b'',
                           completed = True\<rparr>], last_id = 1\<rparr>, flashes = []\<rparr>)"
  by (simp add: serve_def route_defs dispatch_request_def run_view_def toogle_task_def
      ctx_defs query_get_def sqlite_integer_def update_row_def Let_def)

subsection \<open>Toggling\<close>

text \<open>
  C5. For a task in the table, the toggle run twice in succession redirects both times,
  flips \<open>completed\<close> the first time and leaves it at its original value after the
  second.
\<close>

theorem toogle_twice:
  assumes "query_get (db a) i = Some t"
  shows "let a1 = snd (run_view a (toogle_task i));
             a2 = snd (run_view a1 (toogle_task i))
         in fst (run_view a (toogle_task i)) = Inr (Redirect Main_index) \<and>
            fst (run_view a1 (toogle_task i)) = Inr (Redirect Main_index) \<and>
            map_option completed (query_get (db a1) i) = Some (\<not> completed t) \<and>
            map_option completed (query_get (db a2) i) = Some (completed t)"
proof -
  let ?t1 = "t\<lparr>completed := \<not> completed t\<rparr>"
  let ?a1 = "a\<lparr>db := update_row ?t1 (db a)\<rparr>"
  have id: "task_id t = i" by (rule query_get_id [OF assms])
  have r1: "run_view a (toogle_task i) = (Inr (Redirect Main_index), ?a1)"
    by (rule run_toogle [OF assms])
  have g1: "query_get (db ?a1) i = Some ?t1"
    using assms id by (simp add: query_get_update_same)
  have r2: "run_view ?a1 (toogle_task i) =
      (Inr (Redirect Main_index), ?a1\<lparr>db := update_row t (db ?a1)\<rparr>)"
    using run_toogle [OF g1] by simp
  have g2: "query_get (update_row t (db ?a1)) i = Some t"
    using g1 id by (simp add: query_get_update_same)
  show ?thesis
    using r1 r2 g1 g2 by (simp add: Let_def)
qed

theorem toogle_twice_witness:
  "map_option completed (query_get (db (snd (run_view (snd (run_view
       \<lparr>db = \<lparr>rows = [\<lparr>task_id = 1, title = ''a'', description = Some ''b'',
                         completed = True\<rparr>], last_id = 1\<rparr>, flashes = []\<rparr>
       (toogle_task 1))) (toogle_task 1)))) 1) = Some True \<and>
   map_option completed (query_get (db (snd (run_view
       \<lparr>db = \<lparr>rows = [\<lparr>task_id = 1, title = ''a'', description = Some ''b'',
                         completed = True\<rparr>], last_id = 1\<rparr>, flashes = []\<rparr>
       (toogle_task 1)))) 1) = Some False"
  using toogle_twice [of
      "\<lparr>db = \<lparr>rows = [\<lparr>task_id = 1, title = ''a'', description = Some ''b'',
                         completed = True\<rparr>], last_id = 1\<rparr>, flashes = []\<rparr>"
      1 "\<lparr>task_id = 1, title = ''a'', description = Some ''b'', completed = True\<rparr>"]
  by (simp add: query_get_def sqlite_integer_def Let_def)

lemma filter_update_other:
  "filter (\<lambda>r. task_id r \<noteq> task_id u) (map (\<lambda>r. if task_id r = task_id u then u else r) xs)
     = filter (\<lambda>r. task_id r \<noteq> task_id u) xs"
  by (induction xs) auto

lemma task_ids_update: "task_ids (update_row u s) = task_ids s"
  by (simp add: task_ids_def update_row_def)

lemma task_ids_delete: "task_ids (delete_row u s) = filter (\<lambda>j. j \<noteq> task_id u) (task_ids s)"
  by (simp add: task_ids_def delete_row_def filter_map comp_def)

lemma task_ids_insert:
  "task_ids (insert_row (Task t d) s) = task_ids s @ [last_id s + 1]"
  by (simp add: task_ids_def insert_row_def Task_def)

text \<open>
  C6. For a task in the table, the toggle changes its \<open>completed\<close> column only: its
  key, title and description are as before, the rows of every other key are as before
  and in the same order, no row is added or removed, and the highest key issued and the
  flashed messages are unchanged.
\<close>

theorem toogle_frame:
  assumes "query_get (db a) i = Some t"
  shows "let a1 = snd (run_view a (toogle_task i))
         in query_get (db a1) i =
              Some \<lparr>task_id = i, title = title t, description = description t,
                     completed = (\<not> completed t)\<rparr> \<and>
            filter (\<lambda>r. task_id r \<noteq> i) (rows (db a1)) = filter (\<lambda>r. task_id r \<noteq> i) (rows (db a)) \<and>
            map task_id (rows (db a1)) = map task_id (rows (db a)) \<and>
            last_id (db a1) = last_id (db a) \<and>
            flashes a1 = flashes a"
proof -
  let ?u = "t\<lparr>completed := \<not> completed t\<rparr>"
  have id: "task_id t = i" by (rule query_get_id [OF assms])
  have u: "?u = \<lparr>task_id = i, title = title t, description = description t,
                  completed = (\<not> completed t)\<rparr>"
    using id by simp
  have r: "run_view a (toogle_task i) = (Inr (Redirect Main_index), a\<lparr>db := update_row ?u (db a)\<rparr>)"
    by (rule run_toogle [OF assms])
  have g: "query_get (update_row ?u (db a)) i = Some ?u"
    using assms id by (simp add: query_get_update_same)
  have f: "filter (\<lambda>r. task_id r \<noteq> i) (rows (update_row ?u (db a)))
             = filter (\<lambda>r. task_id r \<noteq> i) (rows (db a))"
    using filter_update_other [of ?u "rows (db a)"] id by (simp add: update_row_def)
  have m: "map task_id (rows (update_row ?u (db a))) = map task_id (rows (db a))"
    using task_ids_update [of ?u "db a"] by (simp add: task_ids_def)
  have l: "last_id (update_row ?u (db a)) = last_id (db a)"
    by (simp add: update_row_def)
  show ?thesis
    unfolding Let_def r using g f m l u by simp
qed

theorem toogle_frame_witness:
  "snd (run_view
     \<lparr>db = \<lparr>rows = [\<lparr>task_id = 1, title = ''a'', description = Some ''b'', completed = False\<rparr>,
                     \<lparr>task_id = 2, title = ''c'', description = None, completed = False\<rparr>],
             last_id = 2\<rparr>, flashes = []\<rparr> (toogle_task 1))
   = \<lparr>db = \<lparr>rows = [\<lparr>task_id = 1, title = ''a'', description = Some ''b'', completed = True\<rparr>,
                     \<lparr>task_id = 2, title = ''c'', description = None, completed = False\<rparr>],
             last_id = 2\<rparr>, flashes = []\<rparr>"
proof -
  let ?a = "\<lparr>db = \<lparr>rows = [\<lparr>task_id = 1, title = ''a'', description = Some ''b'', completed = False\<rparr>,
                     \<lparr>task_id = 2, title = ''c'', description = None, completed = False\<rparr>],
             last_id = 2\<rparr>, flashes = []\<rparr>"
  have h: "query_get (db ?a) 1
             = Some \<lparr>task_id = 1, title = ''a'', description = Some ''b'', completed = False\<rparr>"
    by (simp add: query_get_def sqlite_integer_def)
  show ?thesis
    using toogle_frame [OF h]
    by (simp add: run_view_def toogle_task_def ctx_defs query_get_def sqlite_integer_def
        update_row_def Let_def)
qed

subsection \<open>Unknown keys\<close>

text \<open>
  Against C7 as it was stated. The route takes any number of digits and the views look
  the number up as it is. The number \<open>2^63\<close> is the key of no task, and edit, delete
  and toggle on it end in \<open>OverflowError\<close>, status 500, not in \<open>NotFound\<close>.
\<close>

theorem unknown_id_counterexample:
  "query_get (db create_app) 9223372036854775808 = None \<and>
   serve create_app
     \<lparr>req_method = POST, path = [''task'', ''9223372036854775808'', ''delete''], form = []\<rparr>
     = (Inl OverflowError, create_app) \<and>
   serve create_app
     \<lparr>req_method = POST, path = [''task'', ''9223372036854775808'', ''toogle''], form = []\<rparr>
     = (Inl OverflowError, create_app) \<and>
   serve create_app
     \<lparr>req_method = POST, path = [''task'', ''9223372036854775808'', ''edit''],
        form = [(''title'', ''x''), (''description'', ''y'')]\<rparr>
     = (Inl OverflowError, create_app) \<and>
   http_status (Inl OverflowError) = 500"
  by (simp add: eval_defs Let_def)

text \<open>
  C7, as amended. For a key that is not in the table, edit (whatever the request),
  delete and toggle each raise and leave the whole application as it was; the view
  itself returns the context it was given, so nothing uncommitted was written either.
  The exception is \<open>NotFound\<close>, status 404, when the number is in the range of the
  keys of the engine, from \<open>-2^63\<close> up to \<open>2^63 - 1\<close>, and \<open>OverflowError\<close>,
  status 500, when it is not.
\<close>

theorem unknown_id_fails_unchanged:
  assumes "query_get (db a) i = None"
  shows "let e = (if sqlite_integer i then NotFound else OverflowError)
         in run_view a (edit_task rq i) = (Inl e, a) \<and>
            run_view a (delete_task i) = (Inl e, a) \<and>
            run_view a (toogle_task i) = (Inl e, a) \<and>
            edit_task rq i (begin_request a) = (Inl e, begin_request a) \<and>
            delete_task i (begin_request a) = (Inl e, begin_request a) \<and>
            toogle_task i (begin_request a) = (Inl e, begin_request a) \<and>
            http_status (Inl NotFound) = 404 \<and>
            http_status (Inl OverflowError) = 500"
proof -
  have s: "query_get (session (begin_request a)) i = None"
    using assms by (simp add: begin_request_def)
  show ?thesis
    using assms get_or_404_miss [OF s]
    by (simp add: Let_def miss_edit miss_delete miss_toogle
        edit_task_def delete_task_def toogle_task_def)
qed

theorem unknown_id_fails_unchanged_witness:
  "query_get (db \<lparr>db = \<lparr>rows = [\<lparr>task_id = 1, title = ''a'', description = Some ''b'',
                                   completed = False\<rparr>], last_id = 1\<rparr>, flashes = []\<rparr>) 7
     = None \<and>
   sqlite_integer 7 \<and>
   run_view \<lparr>db = \<lparr>rows = [\<lparr>task_id = 1, title = ''a'', description = Some ''b'',
                                completed = False\<rparr>], last_id = 1\<rparr>, flashes = []\<rparr>
     (edit_task \<lparr>req_method = POST, path = [''task'', ''7'', ''edit''],
                  form = [(''title'', ''x''), (''description'', ''y'')]\<rparr> 7)
     = (Inl NotFound,
        \<lparr>db = \<lparr>rows = [\<lparr>task_id = 1, title = ''a'', description = Some ''b'',
                            completed = False\<rparr>], last_id = 1\<rparr>, flashes = []\<rparr>) \<and>
   run_view \<lparr>db = \<lparr>rows = [\<lparr>task_id = 1, title = ''a'', description = Some ''b'',
                                completed = False\<rparr>], last_id = 1\<rparr>, flashes = []\<rparr>
     (delete_task 7)
     = (Inl NotFound,
        \<lparr>db = \<lparr>rows = [\<lparr>task_id = 1, title = ''a'', description = Some ''b'',
                            completed = False\<rparr>], last_id = 1\<rparr>, flashes = []\<rparr>) \<and>
   run_view \<lparr>db = \<lparr>rows = [\<lparr>task_id = 1, title = ''a'', description = Some ''b'',
                                completed = False\<rparr>], last_id = 1\<rparr>, flashes = []\<rparr>
     (toogle_task 7)
     = (Inl NotFound,
        \<lparr>db = \<lparr>rows = [\<lparr>task_id = 1, title = ''a'', description = Some ''b'',
                            completed = False\<rparr>], last_id = 1\<rparr>, flashes = []\<rparr>)"
  using unknown_id_fails_unchanged [of
      "\<lparr>db = \<lparr>rows = [\<lparr>task_id = 1, title = ''a'', description = Some ''b'',
                          completed = False\<rparr>], last_id = 1\<rparr>, flashes = []\<rparr>"
      7
      "\<lparr>req_method = POST, path = [''task'', ''7'', ''edit''],
         form = [(''title'', ''x''), (''description'', ''y'')]\<rparr>"]
  by (simp add: query_get_def sqlite_integer_def Let_def)

subsection \<open>Missing form fields on create\<close>

text \<open>
  C10. A POST to \<open>/task/new\<close> whose form has no title field, or has a title field
  (empty or not) and no description field, ends in \<open>BadRequestKeyError\<close> for the
  missing field, status 400: the application is unchanged, so no task is created and
  nothing is flashed, and the response is neither the form nor a redirect. A description
  field holding the empty string is accepted: with a title that is not empty the task is
  created.
\<close>

theorem missing_field_fails:
  assumes "req_method rq = POST" and "path rq = [''task'', ''new'']"
  shows "(map_of (form rq) ''title'' = None \<longrightarrow>
            serve a rq = (Inl (BadRequestKeyError ''title''), a)) \<and>
         (map_of (form rq) ''title'' \<noteq> None \<and> map_of (form rq) ''description'' = None \<longrightarrow>
            serve a rq = (Inl (BadRequestKeyError ''description''), a)) \<and>
         (map_of (form rq) ''title'' = Some t \<and> t \<noteq> [] \<and>
          map_of (form rq) ''description'' = Some [] \<longrightarrow>
            serve a rq = (Inr (Redirect Main_index), a\<lparr>db := insert_row (Task t []) (db a)\<rparr>)) \<and>
         http_status (Inl (BadRequestKeyError ''title'')) = 400 \<and>
         http_status (Inl (BadRequestKeyError ''description'')) = 400"
  using assms
  by (auto simp: serve_new_task run_new_task_no_title run_new_task_no_description
      run_new_task_post [where d = "[]"])

theorem missing_field_fails_witness:
  "serve create_app \<lparr>req_method = POST, path = [''task'', ''new''], form = [(''description'', ''d'')]\<rparr>
     = (Inl (BadRequestKeyError ''title''), create_app) \<and>
   serve create_app \<lparr>req_method = POST, path = [''task'', ''new''], form = [(''title'', [])]\<rparr>
     = (Inl (BadRequestKeyError ''description''), create_app) \<and>
   serve create_app
     \<lparr>req_method = POST, path = [''task'', ''new''], form = [(''title'', ''t''), (''description'', [])]\<rparr>
     = (Inr (Redirect Main_index),
        \<lparr>db = \<lparr>rows = [\<lparr>task_id = 1, title = ''t'', description = Some [], completed = False\<rparr>],
                last_id = 1\<rparr>, flashes = []\<rparr>)"
  using
    missing_field_fails [where rq =
      "\<lparr>req_method = POST, path = [''task'', ''new''], form = [(''description'', ''d'')]\<rparr>"
      and t = "''t''" and a = create_app]
    missing_field_fails [where rq =
      "\<lparr>req_method = POST, path = [''task'', ''new''], form = [(''title'', [])]\<rparr>"
      and t = "''t''" and a = create_app]
    missing_field_fails [where rq =
      "\<lparr>req_method = POST, path = [''task'', ''new''], form = [(''title'', ''t''), (''description'', [])]\<rparr>"
      and t = "''t''" and a = create_app]
  by (simp add: create_app_def insert_row_def Task_def)

subsection \<open>Keys over the life of the table\<close>

lemma query_get_mem: "query_get s i = Some t \<Longrightarrow> i \<in> set (task_ids s)"
  by (auto simp: query_get_def task_ids_def find_Some_iff split: if_splits)

lemma query_get_absent: "i \<notin> set (task_ids s) \<Longrightarrow> query_get s i = None"
  by (auto simp: query_get_def task_ids_def find_None_iff)

lemma index_step: "store_step (db a) (db (snd (run_view a (index rq))))"
  by (simp add: run_index store_step.same)

lemma new_task_step: "store_step (db a) (db (snd (run_view a (new_task rq))))"
  by (auto simp: run_view_def new_task_def form_getitem_def ctx_defs
      split: option.splits intro: store_step.intros)

lemma edit_task_step: "store_step (db a) (db (snd (run_view a (edit_task rq i))))"
  by (auto simp: run_view_def edit_task_def form_getitem_def ctx_defs Let_def update_row_twice
      split: option.splits intro: store_step.intros)

lemma delete_task_step: "store_step (db a) (db (snd (run_view a (delete_task i))))"
  by (auto simp: run_view_def delete_task_def ctx_defs
      split: option.splits intro: store_step.intros)

lemma toogle_task_step: "store_step (db a) (db (snd (run_view a (toogle_task i))))"
  by (auto simp: run_view_def toogle_task_def ctx_defs Let_def
      split: option.splits intro: store_step.intros)

lemma serve_step: "store_step (db a) (db (snd (serve a rq)))"
proof (cases "url_map (path rq)")
  case None
  then show ?thesis by (simp add: serve_def store_step.same)
next
  case (Some r)
  obtain ep ms where r: "r = (ep, ms)" by (cases r)
  show ?thesis
  proof (cases "req_method rq \<in> set ms")
    case False
    with Some r show ?thesis by (simp add: serve_def store_step.same)
  next
    case True
    with Some r have "serve a rq = run_view a (dispatch_request ep rq)"
      by (simp add: serve_def)
    then show ?thesis
      by (cases ep)
        (simp_all add: dispatch_request_def index_step new_task_step edit_task_step
          delete_task_step toogle_task_step)
  qed
qed

lemma last_id_rows:
  "last_id (insert_row mk s) = last_id s + 1"
  "last_id (update_row u s) = last_id s"
  "last_id (delete_row u s) = last_id s"
  by (simp_all add: insert_row_def update_row_def delete_row_def)

lemma step_last_id: "store_step s s' \<Longrightarrow> last_id s \<le> last_id s'"
  by (induction rule: store_step.induct)
    (simp_all add: last_id_rows)

lemma step_bounded: "store_step s s' \<Longrightarrow> ids_bounded s \<Longrightarrow> ids_bounded s'"
proof (induction rule: store_step.induct)
  case (ins s t d)
  then show ?case
    by (auto simp: ids_bounded_def task_ids_insert list_all_iff last_id_rows)
next
  case (upd s u)
  then show ?case by (simp add: ids_bounded_def task_ids_update last_id_rows)
next
  case (del s u)
  then show ?case by (auto simp: ids_bounded_def task_ids_delete list_all_iff last_id_rows)
qed simp

lemma step_distinct:
  "store_step s s' \<Longrightarrow> ids_bounded s \<Longrightarrow> distinct (task_ids s) \<Longrightarrow> distinct (task_ids s')"
proof (induction rule: store_step.induct)
  case (ins s t d)
  then show ?case
    by (auto simp: ids_bounded_def task_ids_insert list_all_iff)
qed (simp_all add: task_ids_update task_ids_delete)

lemma step_new:
  "store_step s s' \<Longrightarrow> x \<in> set (task_ids s') \<Longrightarrow> x \<notin> set (task_ids s) \<Longrightarrow>
   x = last_id s + 1 \<and> last_id s' = last_id s + 1"
  by (induction rule: store_step.induct)
    (auto simp: task_ids_insert task_ids_update task_ids_delete last_id_rows)

lemma step_absent:
  "store_step s s' \<Longrightarrow> i \<le> last_id s \<Longrightarrow> i \<notin> set (task_ids s) \<Longrightarrow>
   i \<le> last_id s' \<and> i \<notin> set (task_ids s')"
  by (induction rule: store_step.induct)
    (auto simp: task_ids_insert task_ids_update task_ids_delete last_id_rows)

lemma serve_all_bounded: "ids_bounded (db a) \<Longrightarrow> ids_bounded (db (serve_all a rqs))"
  by (induction rqs arbitrary: a) (auto intro: step_bounded [OF serve_step])

lemma serve_all_distinct:
  "ids_bounded (db a) \<Longrightarrow> distinct (task_ids (db a)) \<Longrightarrow>
   distinct (task_ids (db (serve_all a rqs)))"
  by (induction rqs arbitrary: a)
    (auto intro: step_bounded [OF serve_step] step_distinct [OF serve_step])

lemma serve_all_absent:
  "i \<le> last_id (db a) \<Longrightarrow> i \<notin> set (task_ids (db a)) \<Longrightarrow>
   i \<le> last_id (db (serve_all a rqs)) \<and> i \<notin> set (task_ids (db (serve_all a rqs)))"
proof (induction rqs arbitrary: a)
  case Nil
  then show ?case by simp
next
  case (Cons rq rqs)
  from step_absent [OF serve_step Cons.prems, of rq]
  show ?case by (simp add: Cons.IH)
qed

lemma create_app_bounded: "ids_bounded (db create_app)" "distinct (task_ids (db create_app))"
  by (simp_all add: create_app_def ids_bounded_def task_ids_def)

lemma reachable_bounded: "ids_bounded (db (serve_all create_app rqs))"
  by (rule serve_all_bounded [OF create_app_bounded(1)])

lemma assigned_ids_fresh:
  assumes "ids_bounded (db a)" and "distinct (task_ids (db a))"
  shows "distinct (assigned_ids a rqs) \<and> (\<forall>x \<in> set (assigned_ids a rqs). last_id (db a) < x)"
  using assms
proof (induction rqs arbitrary: a)
  case Nil
  then show ?case by simp
next
  case (Cons rq rqs)
  let ?a = "snd (serve a rq)"
  have st: "store_step (db a) (db ?a)" by (rule serve_step)
  have b: "ids_bounded (db ?a)" and d: "distinct (task_ids (db ?a))"
    using st Cons.prems by (auto intro: step_bounded step_distinct)
  have le: "last_id (db a) \<le> last_id (db ?a)" by (rule step_last_id [OF st])
  have new: "x = last_id (db a) + 1 \<and> last_id (db ?a) = last_id (db a) + 1"
    if "x \<in> set (new_ids a ?a)" for x
    using that step_new [OF st, of x] by (simp add: new_ids_def)
  have dn: "distinct (new_ids a ?a)"
    using d by (simp add: new_ids_def)
  from Cons.IH [OF b d]
  have ih: "distinct (assigned_ids ?a rqs)" "\<forall>x \<in> set (assigned_ids ?a rqs). last_id (db ?a) < x"
    by simp_all
  show ?case
    using dn ih le new by (fastforce simp: Let_def)
qed

lemma serve_all_ids_assigned:
  "set (task_ids (db (serve_all a rqs))) \<subseteq> set (task_ids (db a)) \<union> set (assigned_ids a rqs)"
proof (induction rqs arbitrary: a)
  case Nil
  then show ?case by simp
next
  case (Cons rq rqs)
  have "set (task_ids (db (snd (serve a rq))))
          \<subseteq> set (task_ids (db a)) \<union> set (new_ids a (snd (serve a rq)))"
    by (auto simp: new_ids_def)
  with Cons.IH [of "snd (serve a rq)"] show ?case by auto
qed

text \<open>
  C8. For a task in the table, its delete redirects to the list, and after it the key
  is not in the table: a get finds nothing, and edit, delete and toggle on that key each
  raise \<open>NotFound\<close> and change nothing, so they do however often they are repeated.
  When no key of the table is above the highest key issued, which holds of every
  application reached from a new one (\<open>reachable_bounded\<close>), the same is true after
  any requests served in between: a later create cannot bring the key back, since the
  store issues no key twice.
\<close>

theorem deleted_stays_not_found:
  assumes "query_get (db a) i = Some t"
  shows "let a1 = snd (run_view a (delete_task i))
         in fst (run_view a (delete_task i)) = Inr (Redirect Main_index) \<and>
            query_get (db a1) i = None \<and>
            get_or_404 i (begin_request a1) = Inl NotFound \<and>
            run_view a1 (edit_task rq i) = (Inl NotFound, a1) \<and>
            run_view a1 (delete_task i) = (Inl NotFound, a1) \<and>
            run_view a1 (toogle_task i) = (Inl NotFound, a1) \<and>
            (ids_bounded (db a) \<longrightarrow>
               (let a2 = serve_all a1 after
                in query_get (db a2) i = None \<and>
                   get_or_404 i (begin_request a2) = Inl NotFound \<and>
                   run_view a2 (edit_task rq i) = (Inl NotFound, a2) \<and>
                   run_view a2 (delete_task i) = (Inl NotFound, a2) \<and>
                   run_view a2 (toogle_task i) = (Inl NotFound, a2)))"
proof -
  let ?a1 = "a\<lparr>db := delete_row t (db a)\<rparr>"
  let ?a2 = "serve_all ?a1 after"
  have r: "run_view a (delete_task i) = (Inr (Redirect Main_index), ?a1)"
    by (rule run_delete [OF assms])
  have id: "task_id t = i" by (rule query_get_id [OF assms])
  have n1: "query_get (db ?a1) i = None"
    using id query_get_delete_same [of t "db a"] by simp
  have n2: "query_get (db ?a2) i = None" if b: "ids_bounded (db a)"
  proof -
    have "i \<in> set (task_ids (db a))"
      by (rule query_get_mem [OF assms])
    with b have "i \<le> last_id (db a)"
      by (simp add: ids_bounded_def list_all_iff)
    then have "i \<le> last_id (db ?a1)" and "i \<notin> set (task_ids (db ?a1))"
      using id by (auto simp: task_ids_delete last_id_rows)
    then have "i \<notin> set (task_ids (db ?a2))"
      using serve_all_absent by blast
    then show ?thesis by (rule query_get_absent)
  qed
  have nf: "get_or_404 i (begin_request b) = Inl NotFound \<and>
            run_view b (edit_task rq i) = (Inl NotFound, b) \<and>
            run_view b (delete_task i) = (Inl NotFound, b) \<and>
            run_view b (toogle_task i) = (Inl NotFound, b)"
    if "query_get (db b) i = None" for b
    using that query_get_range [OF assms]
    by (simp add: not_found_edit not_found_delete not_found_toogle get_or_404_def
        begin_request_def)
  show ?thesis
    unfolding Let_def r using n1 n2 nf [OF n1] nf [OF n2] by simp
qed

theorem deleted_stays_not_found_witness:
  "ids_bounded \<lparr>rows = [\<lparr>task_id = 1, title = ''a'', description = Some ''b'',
                          completed = False\<rparr>], last_id = 1\<rparr> \<and>
   snd (run_view
     \<lparr>db = \<lparr>rows = [\<lparr>task_id = 1, title = ''a'', description = Some ''b'',
                         completed = False\<rparr>], last_id = 1\<rparr>, flashes = []\<rparr>
     (delete_task 1))
     = \<lparr>db = \<lparr>rows = [], last_id = 1\<rparr>, flashes = []\<rparr> \<and>
   run_view \<lparr>db = \<lparr>rows = [], last_id = 1\<rparr>, flashes = []\<rparr> (toogle_task 1)
     = (Inl NotFound, \<lparr>db = \<lparr>rows = [], last_id = 1\<rparr>, flashes = []\<rparr>) \<and>
   serve_all \<lparr>db = \<lparr>rows = [], last_id = 1\<rparr>, flashes = []\<rparr>
       [\<lparr>req_method = POST, path = [''task'', ''new''],
          form = [(''title'', ''c''), (''description'', ''d'')]\<rparr>]
     = \<lparr>db = \<lparr>rows = [\<lparr>task_id = 2, title = ''c'', description = Some ''d'',
                           completed = False\<rparr>], last_id = 2\<rparr>, flashes = []\<rparr> \<and>
   run_view
     \<lparr>db = \<lparr>rows = [\<lparr>task_id = 2, title = ''c'', description = Some ''d'',
                         completed = False\<rparr>], last_id = 2\<rparr>, flashes = []\<rparr>
     (toogle_task 1)
     = (Inl NotFound,
        \<lparr>db = \<lparr>rows = [\<lparr>task_id = 2, title = ''c'', description = Some ''d'',
                            completed = False\<rparr>], last_id = 2\<rparr>, flashes = []\<rparr>)"
  using deleted_stays_not_found [where a =
      "\<lparr>db = \<lparr>rows = [\<lparr>task_id = 1, title = ''a'', description = Some ''b'',
                          completed = False\<rparr>], last_id = 1\<rparr>, flashes = []\<rparr>"
      and i = 1
      and t = "\<lparr>task_id = 1, title = ''a'', description = Some ''b'', completed = False\<rparr>"
      and after =
      "[\<lparr>req_method = POST, path = [''task'', ''new''],
          form = [(''title'', ''c''), (''description'', ''d'')]\<rparr>]"
      and rq = "\<lparr>req_method = GET, path = [''task'', ''1'', ''edit''], form = []\<rparr>"]
  by (simp add: eval_defs ids_bounded_def task_ids_def Let_def)

text \<open>
  C9. Over any list of requests served by a new application, the keys handed out to
  created tasks are pairwise distinct, so a key whose task was deleted is not handed out
  again; the keys in the table are distinct at every moment and each of them was handed
  out by a create of that run.
\<close>

theorem ids_never_reused:
  "distinct (assigned_ids create_app rqs) \<and>
   distinct (task_ids (db (serve_all create_app rqs))) \<and>
   set (task_ids (db (serve_all create_app rqs))) \<subseteq> set (assigned_ids create_app rqs)"
  using assigned_ids_fresh [OF create_app_bounded, of rqs]
    serve_all_distinct [OF create_app_bounded, of rqs]
    serve_all_ids_assigned [of create_app rqs]
  by (simp add: create_app_def task_ids_def)

theorem ids_never_reused_witness:
  "assigned_ids create_app
     [\<lparr>req_method = POST, path = [''task'', ''new''],
        form = [(''title'', ''a''), (''description'', ''b'')]\<rparr>,
      \<lparr>req_method = POST, path = [''task'', ''new''],
        form = [(''title'', ''c''), (''description'', ''d'')]\<rparr>,
      \<lparr>req_method = POST, path = [''task'', ''2'', ''delete''], form = []\<rparr>,
      \<lparr>req_method = POST, path = [''task'', ''new''],
        form = [(''title'', ''e''), (''description'', ''f'')]\<rparr>]
     = [1, 2, 3] \<and>
   task_ids (db (serve_all create_app
     [\<lparr>req_method = POST, path = [''task'', ''new''],
        form = [(''title'', ''a''), (''description'', ''b'')]\<rparr>,
      \<lparr>req_method = POST, path = [''task'', ''new''],
        form = [(''title'', ''c''), (''description'', ''d'')]\<rparr>,
      \<lparr>req_method = POST, path = [''task'', ''2'', ''delete''], form = []\<rparr>,
      \<lparr>req_method = POST, path = [''task'', ''new''],
        form = [(''title'', ''e''), (''description'', ''f'')]\<rparr>]))
     = [1, 3]"
  using ids_never_reused [of
     "[\<lparr>req_method = POST, path = [''task'', ''new''],
        form = [(''title'', ''a''), (''description'', ''b'')]\<rparr>,
      \<lparr>req_method = POST, path = [''task'', ''new''],
        form = [(''title'', ''c''), (''description'', ''d'')]\<rparr>,
      \<lparr>req_method = POST, path = [''task'', ''2'', ''delete''], form = []\<rparr>,
      \<lparr>req_method = POST, path = [''task'', ''new''],
        form = [(''title'', ''e''), (''description'', ''f'')]\<rparr>]"]
  by (simp add: eval_defs new_ids_def task_ids_def Let_def)

end
